theory Spec2Isabelle
  imports Complex_Main
begin

section \<open>Values and errors of the Python program\<close>

text \<open>
  The engine of \<^verbatim>\<open>reinsurance.py\<close> computes with Python floats and numpy
  \<^verbatim>\<open>float64\<close> values. Finite values are modelled by real numbers (rounding is
  not modelled, and neither is the sign of zero); the values a numpy operation
  returns in place of an exception (\<^verbatim>\<open>nan\<close>, \<^verbatim>\<open>inf\<close>, \<^verbatim>\<open>-inf\<close>) are kept apart from
  them. The exceptions are the built-in ones the program can raise: it defines no
  exception class of its own.
\<close>

datatype py_error = ZeroDivisionError | KeyError | ValueError | IndexError

datatype npfloat = Fin real | PosInf | NegInf | NaN

text \<open>
  \<^verbatim>\<open>a / b\<close> on two Python floats raises \<^verbatim>\<open>ZeroDivisionError\<close> for a zero divisor.
\<close>

definition py_float_div :: "real \<Rightarrow> real \<Rightarrow> py_error + real" where
  "py_float_div a b = (if b = 0 then Inl ZeroDivisionError else Inr (a / b))"

text \<open>
  \<^verbatim>\<open>np.log\<close> and \<^verbatim>\<open>np.sqrt\<close> never raise: outside their domain they return
  \<^verbatim>\<open>nan\<close> (or \<^verbatim>\<open>-inf\<close> for the logarithm of zero) and emit a warning.
\<close>

definition np_log :: "real \<Rightarrow> npfloat" where
  "np_log x = (if 0 < x then Fin (ln x) else if x = 0 then NegInf else NaN)"

fun np_sqrt :: "npfloat \<Rightarrow> npfloat" where
  "np_sqrt (Fin x) = (if 0 \<le> x then Fin (sqrt x) else NaN)"
| "np_sqrt PosInf = PosInf"
| "np_sqrt NegInf = NaN"
| "np_sqrt NaN = NaN"

fun np_sub :: "npfloat \<Rightarrow> npfloat \<Rightarrow> npfloat" where
  "np_sub (Fin a) (Fin b) = Fin (a - b)"
| "np_sub NaN y = NaN"
| "np_sub x NaN = NaN"
| "np_sub PosInf PosInf = NaN"
| "np_sub NegInf NegInf = NaN"
| "np_sub PosInf y = PosInf"
| "np_sub NegInf y = NegInf"
| "np_sub (Fin a) PosInf = NegInf"
| "np_sub (Fin a) NegInf = PosInf"

text \<open>
  A numpy float divided by a Python number: a zero divisor gives \<^verbatim>\<open>inf\<close>,
  \<^verbatim>\<open>-inf\<close> or \<^verbatim>\<open>nan\<close> with a warning, never an exception.
\<close>

fun np_true_divide :: "npfloat \<Rightarrow> real \<Rightarrow> npfloat" where
  "np_true_divide (Fin a) b =
     (if b \<noteq> 0 then Fin (a / b)
      else if 0 < a then PosInf else if a < 0 then NegInf else NaN)"
| "np_true_divide PosInf b = (if 0 \<le> b then PosInf else NegInf)"
| "np_true_divide NegInf b = (if 0 \<le> b then NegInf else PosInf)"
| "np_true_divide NaN b = NaN"


section \<open>The distribution parameterizer\<close>

text \<open>
  \<^verbatim>\<open>
  def lognormal_params(mean, std):
      sigma2 = np.log(1 + (std**2 / mean**2))
      sigma = np.sqrt(sigma2)
      mu = np.log(mean) - sigma2 / 2
      return mu, sigma
  \<close>
  The callers pass Python floats, so \<^verbatim>\<open>std**2 / mean**2\<close> is Python's division.
\<close>

definition lognormal_params :: "real \<Rightarrow> real \<Rightarrow> py_error + (npfloat \<times> npfloat)" where
  "lognormal_params mean std =
     (case py_float_div (std ^ 2) (mean ^ 2) of
        Inl e \<Rightarrow> Inl e
      | Inr r \<Rightarrow>
          let sigma2 = np_log (1 + r);
              sigma = np_sqrt sigma2;
              mu = np_sub (np_log mean) (np_true_divide sigma2 2)
          in Inr (mu, sigma))"


section \<open>Configuration and the random source\<close>

text \<open>
  The module constants \<^verbatim>\<open>N_SIM\<close>, \<^verbatim>\<open>N_POLICIES\<close>, \<^verbatim>\<open>CLAIM_PROB\<close>,
  \<^verbatim>\<open>RETENTIONS\<close> and \<^verbatim>\<open>PREMIUMS\<close> are the fields of a record, so that the
  theorems hold for every configuration and not only for the values the file sets.
  \<^verbatim>\<open>PREMIUMS\<close> is a dict: a partial map from retention level to premium.
\<close>

record config =
  N_SIM :: nat
  N_POLICIES :: nat
  CLAIM_PROB :: real
  RETENTIONS :: "real list"
  PREMIUMS :: "real \<rightharpoonup> real"

text \<open>
  The engine draws from numpy's process-wide generator. The draws of one simulated
  year are made explicit: one uniform variate in [0, 1) per policy, behind
  \<^verbatim>\<open>np.random.binomial\<close>, and the sequence of values \<^verbatim>\<open>np.random.lognormal\<close>
  returns. Claim sizes are finite reals, as lognormal draws with finite parameters are.
\<close>

record draws =
  variates :: "nat \<Rightarrow> real"
  severities :: "nat \<Rightarrow> real"

text \<open>
  \<^verbatim>\<open>np.random.binomial(1, p, size)\<close>, from numpy's contract: an array of \<^verbatim>\<open>size\<close>
  entries, each 1 with probability \<open>p\<close> and 0 otherwise; \<^verbatim>\<open>ValueError\<close> for
  \<open>p\<close> outside [0, 1]. An entry is 1 exactly when its uniform variate is below \<open>p\<close>.
\<close>

definition binomial1 :: "real \<Rightarrow> nat \<Rightarrow> (nat \<Rightarrow> real) \<Rightarrow> py_error + nat list" where
  "binomial1 p n u =
     (if p < 0 \<or> 1 < p then Inl ValueError
      else Inr (map (\<lambda>i. if u i < p then 1 else 0) [0..<n]))"

text \<open>\<^verbatim>\<open>np.random.lognormal(mu, sigma, n)\<close>: the next \<open>n\<close> values of the sampler.\<close>

definition lognormal :: "(nat \<Rightarrow> real) \<Rightarrow> nat \<Rightarrow> real list" where
  "lognormal x n = map x [0..<n]"


section \<open>The numpy reductions the engine uses\<close>

text \<open>Elementwise \<^verbatim>\<open>sizes - R\<close>, \<^verbatim>\<open>np.maximum(0, a)\<close> and \<^verbatim>\<open>np.sum(sizes > R)\<close>.\<close>

definition np_subtract :: "real list \<Rightarrow> real \<Rightarrow> real list" where
  "np_subtract a c = map (\<lambda>x. x - c) a"

definition np_maximum :: "real \<Rightarrow> real list \<Rightarrow> real list" where
  "np_maximum c a = map (\<lambda>x. max c x) a"

definition count_greater :: "real list \<Rightarrow> real \<Rightarrow> nat" where
  "count_greater a c = length (filter (\<lambda>x. c < x) a)"

text \<open>
  \<^verbatim>\<open>a.mean()\<close> and \<^verbatim>\<open>a.std()\<close>. Both return \<^verbatim>\<open>nan\<close> (with a warning) on an empty
  array. \<^verbatim>\<open>std\<close> is called with numpy's default \<^verbatim>\<open>ddof=0\<close>: the mean of the squared
  deviations, divided by the number of values.
\<close>

definition np_mean :: "real list \<Rightarrow> npfloat" where
  "np_mean a = (if a = [] then NaN else Fin (sum_list a / real (length a)))"

definition np_std :: "real list \<Rightarrow> npfloat" where
  "np_std a =
     (if a = [] then NaN
      else let m = sum_list a / real (length a)
           in Fin (sqrt (sum_list (map (\<lambda>x. (x - m) ^ 2) a) / real (length a))))"

text \<open>
  \<^verbatim>\<open>np.percentile(a, q)\<close> with the default linear interpolation, from numpy's
  contract: on the sorted array the virtual index is \<open>(n - 1) * q / 100\<close>, and the
  result interpolates between its two neighbours. numpy raises \<^verbatim>\<open>ValueError\<close> for
  \<open>q\<close> outside [0, 100]; on an empty array current releases raise \<^verbatim>\<open>IndexError\<close>.
\<close>

definition np_percentile :: "real list \<Rightarrow> real \<Rightarrow> py_error + real" where
  "np_percentile a q =
     (if q < 0 \<or> 100 < q then Inl ValueError
      else if a = [] then Inl IndexError
      else let s = sort a;
               n = length s;
               h = (real n - 1) * (q / 100);
               i = nat \<lfloor>h\<rfloor>;
               j = min (i + 1) (n - 1)
           in Inr (s ! i + (h - real i) * (s ! j - s ! i)))"

text \<open>\<^verbatim>\<open>losses[losses >= var_99]\<close>: the values at or above the threshold, in order.\<close>

definition select_ge :: "real list \<Rightarrow> real \<Rightarrow> real list" where
  "select_ge a v = filter (\<lambda>x. v \<le> x) a"

text \<open>
  \<^verbatim>\<open>reinsurer_hits / total_claims\<close>. Both counters start as the Python int 0 and
  become numpy integers only by \<^verbatim>\<open>total_claims += n_claims\<close> with a positive
  \<^verbatim>\<open>n_claims\<close>. So a zero \<^verbatim>\<open>total_claims\<close> is still a Python int, as is
  \<^verbatim>\<open>reinsurer_hits\<close>, and Python's division raises \<^verbatim>\<open>ZeroDivisionError\<close>.
\<close>

definition count_ratio :: "nat \<Rightarrow> nat \<Rightarrow> py_error + real" where
  "count_ratio hits claims =
     (if claims = 0 then Inl ZeroDivisionError else Inr (real hits / real claims))"

text \<open>\<^verbatim>\<open>PREMIUMS[R]\<close>: a missing key raises \<^verbatim>\<open>KeyError\<close>.\<close>

definition premium_lookup :: "(real \<rightharpoonup> real) \<Rightarrow> real \<Rightarrow> py_error + real" where
  "premium_lookup table R = (case table R of None \<Rightarrow> Inl KeyError | Some p \<Rightarrow> Inr p)"


section \<open>The Monte Carlo loop\<close>

text \<open>
  The three accumulators of one retention level:
  \<^verbatim>\<open>portfolio_losses = []\<close>, \<^verbatim>\<open>reinsurer_hits = 0\<close>, \<^verbatim>\<open>total_claims = 0\<close>.
\<close>

record sim_state =
  portfolio_losses :: "real list"
  reinsurer_hits :: nat
  total_claims :: nat

definition init_state :: sim_state where
  "init_state = \<lparr>portfolio_losses = [], reinsurer_hits = 0, total_claims = 0\<rparr>"

text \<open>
  The body of \<^verbatim>\<open>for _ in range(N_SIM)\<close>:
  \<^verbatim>\<open>
  claims = np.random.binomial(1, CLAIM_PROB, N_POLICIES)
  n_claims = claims.sum()
  ceded_total = 0
  if n_claims > 0:
      sizes = np.random.lognormal(mu, sigma, n_claims)
      ceded = np.maximum(0, sizes - R)
      ceded_total = ceded.sum()
      reinsurer_hits += np.sum(sizes > R)
      total_claims += n_claims
  portfolio_losses.append(ceded_total)
  \<close>
\<close>

definition trial :: "config \<Rightarrow> real \<Rightarrow> draws \<Rightarrow> sim_state \<Rightarrow> py_error + sim_state" where
  "trial cfg R d st =
     (case binomial1 (CLAIM_PROB cfg) (N_POLICIES cfg) (variates d) of
        Inl e \<Rightarrow> Inl e
      | Inr claims \<Rightarrow>
          (let n_claims = sum_list claims in
           (if 0 < n_claims then
              (let sizes = lognormal (severities d) n_claims;
                   ceded = np_maximum 0 (np_subtract sizes R);
                   ceded_total = sum_list ceded
               in Inr \<lparr>portfolio_losses = portfolio_losses st @ [ceded_total],
                       reinsurer_hits = reinsurer_hits st + count_greater sizes R,
                       total_claims = total_claims st + n_claims\<rparr>)
            else Inr (st\<lparr>portfolio_losses := portfolio_losses st @ [0]\<rparr>))))"

text \<open>The loop over the trials \<open>ks\<close>, stopped by the first exception.\<close>

fun trials :: "config \<Rightarrow> real \<Rightarrow> (nat \<Rightarrow> draws) \<Rightarrow> nat list \<Rightarrow> sim_state \<Rightarrow> py_error + sim_state" where
  "trials cfg R rng [] st = Inr st"
| "trials cfg R rng (k # ks) st =
     (case trial cfg R (rng k) st of
        Inl e \<Rightarrow> Inl e
      | Inr st' \<Rightarrow> trials cfg R rng ks st')"

definition simulate :: "config \<Rightarrow> real \<Rightarrow> (nat \<Rightarrow> draws) \<Rightarrow> py_error + sim_state" where
  "simulate cfg R rng = trials cfg R rng [0..<N_SIM cfg] init_state"


section \<open>The risk metrics\<close>

record metrics =
  mean_loss :: npfloat
  std_loss :: npfloat
  var_99 :: real
  tvar_99 :: npfloat
  prob_reinsurer :: real
  value_for_money :: npfloat

text \<open>
  \<^verbatim>\<open>
  losses = np.array(portfolio_losses)
  mean_loss = losses.mean()
  std_loss = losses.std()
  var_99 = np.percentile(losses, 99)
  tvar_99 = losses[losses >= var_99].mean()
  prob_reinsurer = reinsurer_hits / total_claims
  value_for_money = mean_loss / PREMIUMS[R]
  \<close>
  in the order of the statements, so in the order in which they can raise.
\<close>

definition risk_metrics :: "config \<Rightarrow> real \<Rightarrow> sim_state \<Rightarrow> py_error + metrics" where
  "risk_metrics cfg R st =
     (let losses = portfolio_losses st;
          mean' = np_mean losses;
          std' = np_std losses
      in (case np_percentile losses 99 of
            Inl e \<Rightarrow> Inl e
          | Inr var' \<Rightarrow>
              (let tvar' = np_mean (select_ge losses var')
               in (case count_ratio (reinsurer_hits st) (total_claims st) of
                     Inl e \<Rightarrow> Inl e
                   | Inr prob' \<Rightarrow>
                       (case premium_lookup (PREMIUMS cfg) R of
                          Inl e \<Rightarrow> Inl e
                        | Inr premium \<Rightarrow>
                            Inr \<lparr>mean_loss = mean', std_loss = std',
                                 var_99 = var', tvar_99 = tvar',
                                 prob_reinsurer = prob',
                                 value_for_money = np_true_divide mean' premium\<rparr>)))))"

text \<open>One pass of \<^verbatim>\<open>for R in RETENTIONS\<close>: the simulation, then the metrics.\<close>

definition run_retention :: "config \<Rightarrow> real \<Rightarrow> (nat \<Rightarrow> draws) \<Rightarrow> py_error + metrics" where
  "run_retention cfg R rng =
     (case simulate cfg R rng of
        Inl e \<Rightarrow> Inl e
      | Inr st \<Rightarrow> risk_metrics cfg R st)"

text \<open>
  \<^verbatim>\<open>run_engine(mean, std, title)\<close>: the parameters, then every retention level in
  turn. The result is the list of the reports printed, and the exception that ended
  the run if there was one. \<open>rng mu sigma j\<close> is the random source of the \<open>j\<close>-th
  retention level, given the parameters the sampler is called with.
\<close>

fun retention_loop :: "config \<Rightarrow> (nat \<Rightarrow> nat \<Rightarrow> draws) \<Rightarrow> nat \<Rightarrow> real list \<Rightarrow> (real \<times> metrics) list \<times> py_error option" where
  "retention_loop cfg rng j [] = ([], None)"
| "retention_loop cfg rng j (R # Rs) =
     (case run_retention cfg R (rng j) of
        Inl e \<Rightarrow> ([], Some e)
      | Inr m \<Rightarrow>
          (case retention_loop cfg rng (Suc j) Rs of
             (reports, err) \<Rightarrow> ((R, m) # reports, err)))"

definition run_engine :: "config \<Rightarrow> (npfloat \<Rightarrow> npfloat \<Rightarrow> nat \<Rightarrow> nat \<Rightarrow> draws) \<Rightarrow> real \<Rightarrow> real \<Rightarrow> (real \<times> metrics) list \<times> py_error option" where
  "run_engine cfg rng mean std =
     (case lognormal_params mean std of
        Inl e \<Rightarrow> ([], Some e)
      | Inr (mu, sigma) \<Rightarrow> retention_loop cfg (rng mu sigma) 0 (RETENTIONS cfg))"


section \<open>Notions the properties are stated with\<close>

text \<open>
  The number of claims of a simulated year and the sizes drawn for them: the
  \<^verbatim>\<open>n_claims\<close> and \<^verbatim>\<open>sizes\<close> of \<open>trial\<close>. With no claim the engine draws
  no size.
\<close>

definition n_claims_of :: "config \<Rightarrow> draws \<Rightarrow> nat" where
  "n_claims_of cfg d =
     (case binomial1 (CLAIM_PROB cfg) (N_POLICIES cfg) (variates d) of
        Inl e \<Rightarrow> 0
      | Inr claims \<Rightarrow> sum_list claims)"

definition claim_sizes :: "config \<Rightarrow> draws \<Rightarrow> real list" where
  "claim_sizes cfg d = lognormal (severities d) (n_claims_of cfg d)"

text \<open>
  The estimator the specification names for the risk metric: the sample standard
  deviation, with denominator \<open>N - 1\<close>.
\<close>

definition spec_sample_std :: "real list \<Rightarrow> real" where
  "spec_sample_std a =
     (let m = sum_list a / real (length a)
      in sqrt ((\<Sum>x\<leftarrow>a. (x - m) ^ 2) / (real (length a) - 1)))"

text \<open>
  A small run to evaluate the engine on: two simulated years of a one-policy
  portfolio. The first year has no claim, the second has one claim of size 3.
\<close>

definition example_cfg :: config where
  "example_cfg = \<lparr>N_SIM = 2, N_POLICIES = 1, CLAIM_PROB = 1 / 2,
                   RETENTIONS = [1, 2], PREMIUMS = [1 \<mapsto> 4, 2 \<mapsto> 2]\<rparr>"

definition example_rng :: "nat \<Rightarrow> draws" where
  "example_rng k = \<lparr>variates = (\<lambda>i. if k = 0 then 3 / 4 else 1 / 4), severities = (\<lambda>i. 3)\<rparr>"

text \<open>
  The same run with \<^verbatim>\<open>CLAIM_PROB = 0\<close>.
\<close>

definition no_claims_cfg :: config where
  "no_claims_cfg = example_cfg\<lparr>CLAIM_PROB := 0\<rparr>"


section \<open>Properties of the parameterizer\<close>








text \<open>
  An exception of the parameterizer ends \<open>run_engine\<close> before any retention level
  is evaluated.
\<close>

lemma run_engine_zero_mean: "run_engine cfg rng 0 std = ([], Some ZeroDivisionError)"
  by (simp add: run_engine_def lognormal_params_def py_float_div_def)


section \<open>The loop in closed form\<close>

text \<open>
  For a claim probability in [0, 1] no trial raises, and the accumulators after the
  trials \<open>ks\<close> are sums over the sizes drawn in them. A year without claims adds
  the empty sum, so the two branches of \<open>trial\<close> agree.
\<close>

lemma length_lognormal: "length (lognormal x n) = n"
  by (simp add: lognormal_def)

lemma length_claim_sizes: "length (claim_sizes cfg d) = n_claims_of cfg d"
  by (simp add: claim_sizes_def length_lognormal)

lemma ceded_map: "np_maximum 0 (np_subtract sizes R) = map (\<lambda>s. max 0 (s - R)) sizes"
  by (simp add: np_maximum_def np_subtract_def)

lemma trial_ok:
  assumes "0 \<le> CLAIM_PROB cfg" and "CLAIM_PROB cfg \<le> 1"
  shows "trial cfg R d st =
           Inr \<lparr>portfolio_losses = portfolio_losses st @ [(\<Sum>s\<leftarrow>claim_sizes cfg d. max 0 (s - R))],
                reinsurer_hits = reinsurer_hits st + count_greater (claim_sizes cfg d) R,
                total_claims = total_claims st + length (claim_sizes cfg d)\<rparr>"
proof -
  obtain claims where b: "binomial1 (CLAIM_PROB cfg) (N_POLICIES cfg) (variates d) = Inr claims"
    using assms by (simp add: binomial1_def)
  have n: "sum_list claims = n_claims_of cfg d"
    by (simp add: n_claims_of_def b)
  have t: "trial cfg R d st =
      (if 0 < n_claims_of cfg d then
         Inr \<lparr>portfolio_losses = portfolio_losses st @ [sum_list (np_maximum 0 (np_subtract (claim_sizes cfg d) R))],
              reinsurer_hits = reinsurer_hits st + count_greater (claim_sizes cfg d) R,
              total_claims = total_claims st + n_claims_of cfg d\<rparr>
       else Inr (st\<lparr>portfolio_losses := portfolio_losses st @ [0]\<rparr>))"
    by (simp only: trial_def b sum.case n Let_def claim_sizes_def)
  show ?thesis
  proof (cases "0 < n_claims_of cfg d")
    case True
    then show ?thesis
      by (simp only: t if_True ceded_map length_claim_sizes)
  next
    case False
    then have z: "n_claims_of cfg d = 0" by simp
    then have e: "claim_sizes cfg d = []"
      by (simp add: claim_sizes_def lognormal_def)
    have "trial cfg R d st = Inr (st\<lparr>portfolio_losses := portfolio_losses st @ [0]\<rparr>)"
      using False by (simp only: t if_False)
    then show ?thesis
      by (simp add: e count_greater_def)
  qed
qed

lemma trials_ok:
  assumes "0 \<le> CLAIM_PROB cfg" and "CLAIM_PROB cfg \<le> 1"
  shows "trials cfg R rng ks st =
           Inr \<lparr>portfolio_losses = portfolio_losses st @ map (\<lambda>k. (\<Sum>s\<leftarrow>claim_sizes cfg (rng k). max 0 (s - R))) ks,
                reinsurer_hits = reinsurer_hits st + (\<Sum>k\<leftarrow>ks. count_greater (claim_sizes cfg (rng k)) R),
                total_claims = total_claims st + (\<Sum>k\<leftarrow>ks. length (claim_sizes cfg (rng k)))\<rparr>"
proof (induction ks arbitrary: st)
  case Nil
  show ?case by simp
next
  case (Cons k ks)
  show ?case
    by (simp add: trial_ok [OF assms] Cons.IH add.assoc)
qed

lemma simulate_ok:
  assumes "0 \<le> CLAIM_PROB cfg" and "CLAIM_PROB cfg \<le> 1"
  shows "simulate cfg R rng =
           Inr \<lparr>portfolio_losses = map (\<lambda>k. (\<Sum>s\<leftarrow>claim_sizes cfg (rng k). max 0 (s - R))) [0..<N_SIM cfg],
                reinsurer_hits = (\<Sum>k\<leftarrow>[0..<N_SIM cfg]. count_greater (claim_sizes cfg (rng k)) R),
                total_claims = (\<Sum>k\<leftarrow>[0..<N_SIM cfg]. length (claim_sizes cfg (rng k)))\<rparr>"
  by (simp add: simulate_def trials_ok [OF assms] init_state_def)

text \<open>
  Outside [0, 1] the first trial raises \<^verbatim>\<open>ValueError\<close>; so a run that returns
  either had no trial or had a claim probability in range.
\<close>

lemma trial_bad_prob:
  assumes "CLAIM_PROB cfg < 0 \<or> 1 < CLAIM_PROB cfg"
  shows "trial cfg R d st = Inl ValueError"
proof -
  have b: "binomial1 (CLAIM_PROB cfg) (N_POLICIES cfg) (variates d) = Inl ValueError"
    using assms by (simp add: binomial1_def)
  show ?thesis by (simp only: trial_def b sum.case)
qed

lemma trials_Inr_cases:
  assumes "trials cfg R rng ks st = Inr st'"
  shows "ks = [] \<or> (0 \<le> CLAIM_PROB cfg \<and> CLAIM_PROB cfg \<le> 1)"
proof (cases ks)
  case Nil
  then show ?thesis by simp
next
  case (Cons k ks')
  have "\<not> (CLAIM_PROB cfg < 0 \<or> 1 < CLAIM_PROB cfg)"
  proof
    assume "CLAIM_PROB cfg < 0 \<or> 1 < CLAIM_PROB cfg"
    then have "trial cfg R (rng k) st = Inl ValueError" by (rule trial_bad_prob)
    with assms Cons show False by simp
  qed
  then show ?thesis by auto
qed

lemma trials_append:
  "trials cfg R rng (xs @ ys) st =
     (case trials cfg R rng xs st of Inl e \<Rightarrow> Inl e | Inr st' \<Rightarrow> trials cfg R rng ys st')"
  by (induction xs arbitrary: st) (simp_all split: sum.splits)

lemma trials_length:
  assumes "trials cfg R rng ks st = Inr st'"
  shows "length (portfolio_losses st') = length (portfolio_losses st) + length ks"
proof -
  from trials_Inr_cases [OF assms] show ?thesis
  proof
    assume "ks = []"
    with assms show ?thesis by simp
  next
    assume p: "0 \<le> CLAIM_PROB cfg \<and> CLAIM_PROB cfg \<le> 1"
    then have "trials cfg R rng ks st =
           Inr \<lparr>portfolio_losses = portfolio_losses st @ map (\<lambda>k. (\<Sum>s\<leftarrow>claim_sizes cfg (rng k). max 0 (s - R))) ks,
                reinsurer_hits = reinsurer_hits st + (\<Sum>k\<leftarrow>ks. count_greater (claim_sizes cfg (rng k)) R),
                total_claims = total_claims st + (\<Sum>k\<leftarrow>ks. length (claim_sizes cfg (rng k)))\<rparr>"
      by (simp add: trials_ok)
    with assms show ?thesis by auto
  qed
qed

lemma simulate_length:
  assumes "simulate cfg R rng = Inr st"
  shows "length (portfolio_losses st) = N_SIM cfg"
  using trials_length [of cfg R rng "[0..<N_SIM cfg]" init_state st] assms
  by (simp add: simulate_def init_state_def)

lemma simulate_zero_trials:
  assumes "simulate cfg R rng = Inr st" and "N_SIM cfg = 0"
  shows "total_claims st = 0"
  using assms by (auto simp: simulate_def init_state_def)


section \<open>The example runs, evaluated\<close>

lemma upt_2: "[0..<2] = [0, Suc 0]"
  by (simp add: numeral_2_eq_2)

lemma example_sizes:
  "claim_sizes example_cfg (example_rng 0) = []"
  "claim_sizes example_cfg (example_rng (Suc 0)) = [3]"
  by (simp_all add: claim_sizes_def n_claims_of_def binomial1_def lognormal_def
      example_cfg_def example_rng_def)

lemma example_simulate:
  "simulate example_cfg R example_rng =
     Inr \<lparr>portfolio_losses = [0, max 0 (3 - R)],
          reinsurer_hits = (if R < 3 then 1 else 0),
          total_claims = 1\<rparr>"
proof -
  have p: "0 \<le> CLAIM_PROB example_cfg" "CLAIM_PROB example_cfg \<le> 1"
    by (simp_all add: example_cfg_def)
  have n: "[0..<N_SIM example_cfg] = [0, Suc 0]"
    by (simp add: example_cfg_def upt_2)
  show ?thesis
    by (simp add: simulate_ok [OF p] n example_sizes count_greater_def)
qed

lemma no_claims_sizes: "claim_sizes no_claims_cfg (example_rng k) = []"
  by (simp add: claim_sizes_def n_claims_of_def binomial1_def lognormal_def
      no_claims_cfg_def example_cfg_def example_rng_def)

lemma no_claims_simulate:
  "simulate no_claims_cfg R example_rng =
     Inr \<lparr>portfolio_losses = [0, 0], reinsurer_hits = 0, total_claims = 0\<rparr>"
proof -
  have p: "0 \<le> CLAIM_PROB no_claims_cfg" "CLAIM_PROB no_claims_cfg \<le> 1"
    by (simp_all add: no_claims_cfg_def example_cfg_def)
  have n: "[0..<N_SIM no_claims_cfg] = [0, Suc 0]"
    by (simp add: no_claims_cfg_def example_cfg_def upt_2)
  show ?thesis
    by (simp add: simulate_ok [OF p] n no_claims_sizes count_greater_def)
qed

lemma example_premiums:
  "PREMIUMS example_cfg 1 = Some 4"
  "PREMIUMS example_cfg 2 = Some 2"
  "PREMIUMS example_cfg 5 = None"
  by (simp_all add: example_cfg_def)

lemma percentile_pair: "np_percentile [0, 2] 99 = Inr (99 / 50)"
  by (simp add: np_percentile_def Let_def)

lemma std_pair: "np_std [0, 2] = Fin 1"
  by (simp add: np_std_def Let_def)

lemma example_run:
  "run_retention example_cfg 1 example_rng =
     Inr \<lparr>mean_loss = Fin 1, std_loss = Fin 1, var_99 = 99 / 50, tvar_99 = Fin 2,
          prob_reinsurer = 1, value_for_money = Fin (1 / 4)\<rparr>"
  by (simp add: run_retention_def example_simulate risk_metrics_def Let_def percentile_pair
      std_pair np_mean_def select_ge_def count_ratio_def premium_lookup_def example_premiums)


section \<open>Layering\<close>

text \<open>
  C1: the per-claim ceded amounts the engine computes are max 0 (s - R) for each
  claim size s, and the loss recorded for each trial is the sum of these amounts over
  the sizes of the trial's claims; it is zero for a trial without claims.
\<close>

theorem ceded_layering:
  assumes "0 \<le> CLAIM_PROB cfg" and "CLAIM_PROB cfg \<le> 1"
  shows "np_maximum 0 (np_subtract sizes R) = map (\<lambda>s. max 0 (s - R)) sizes
       \<and> (\<exists>st. simulate cfg R rng = Inr st
             \<and> portfolio_losses st =
                 map (\<lambda>k. \<Sum>s\<leftarrow>claim_sizes cfg (rng k). max 0 (s - R)) [0..<N_SIM cfg]
             \<and> (\<forall>k<N_SIM cfg. claim_sizes cfg (rng k) = [] \<longrightarrow> portfolio_losses st ! k = 0))"
proof -
  let ?st = "\<lparr>portfolio_losses = map (\<lambda>k. (\<Sum>s\<leftarrow>claim_sizes cfg (rng k). max 0 (s - R))) [0..<N_SIM cfg],
                reinsurer_hits = (\<Sum>k\<leftarrow>[0..<N_SIM cfg]. count_greater (claim_sizes cfg (rng k)) R),
                total_claims = (\<Sum>k\<leftarrow>[0..<N_SIM cfg]. length (claim_sizes cfg (rng k)))\<rparr>"
  have s: "simulate cfg R rng = Inr ?st" using assms by (rule simulate_ok)
  have z: "\<forall>k<N_SIM cfg. claim_sizes cfg (rng k) = [] \<longrightarrow> portfolio_losses ?st ! k = 0"
    by simp
  have l: "portfolio_losses ?st =
      map (\<lambda>k. \<Sum>s\<leftarrow>claim_sizes cfg (rng k). max 0 (s - R)) [0..<N_SIM cfg]"
    by simp
  from s l z have "\<exists>st. simulate cfg R rng = Inr st
             \<and> portfolio_losses st =
                 map (\<lambda>k. \<Sum>s\<leftarrow>claim_sizes cfg (rng k). max 0 (s - R)) [0..<N_SIM cfg]
             \<and> (\<forall>k<N_SIM cfg. claim_sizes cfg (rng k) = [] \<longrightarrow> portfolio_losses st ! k = 0)"
    by blast
  then show ?thesis by (simp add: ceded_map)
qed

theorem ceded_layering_witness:
  "0 \<le> CLAIM_PROB example_cfg \<and> CLAIM_PROB example_cfg \<le> 1
   \<and> np_maximum 0 (np_subtract [3, 1 / 2] 1) = [2, 0]
   \<and> (\<exists>st. simulate example_cfg 1 example_rng = Inr st \<and> portfolio_losses st = [0, 2])"
proof -
  have p: "0 \<le> CLAIM_PROB example_cfg" "CLAIM_PROB example_cfg \<le> 1"
    by (simp_all add: example_cfg_def)
  have n: "[0..<N_SIM example_cfg] = [0, Suc 0]"
    by (simp add: example_cfg_def upt_2)
  from ceded_layering [OF p, of "[3, 1 / 2]" 1 example_rng] obtain st
    where m: "np_maximum 0 (np_subtract [3, 1 / 2] 1) = map (\<lambda>s. max 0 (s - 1)) [3, 1 / 2]"
      and s: "simulate example_cfg 1 example_rng = Inr st"
      and l: "portfolio_losses st =
          map (\<lambda>k. \<Sum>s\<leftarrow>claim_sizes example_cfg (example_rng k). max 0 (s - 1)) [0..<N_SIM example_cfg]"
    by blast
  from m have m': "np_maximum 0 (np_subtract [3, 1 / 2] 1) = [2, 0]" by simp
  from l have l': "portfolio_losses st = [0, 2]" by (simp add: n example_sizes)
  from s l' have "\<exists>st. simulate example_cfg 1 example_rng = Inr st \<and> portfolio_losses st = [0, 2]"
    by blast
  with p m' show ?thesis by simp
qed


section \<open>The two counters\<close>

lemma count_greater_le: "count_greater a c \<le> length a"
  by (simp add: count_greater_def)

lemma trials_hits_le_total:
  assumes "trials cfg R rng ks st = Inr st'" and "reinsurer_hits st \<le> total_claims st"
  shows "reinsurer_hits st' \<le> total_claims st'"
proof -
  from trials_Inr_cases [OF assms(1)] show ?thesis
  proof
    assume "ks = []"
    with assms show ?thesis by simp
  next
    assume p: "0 \<le> CLAIM_PROB cfg \<and> CLAIM_PROB cfg \<le> 1"
    have le: "(\<Sum>k\<leftarrow>ks. count_greater (claim_sizes cfg (rng k)) R)
                \<le> (\<Sum>k\<leftarrow>ks. length (claim_sizes cfg (rng k)))"
      by (rule sum_list_mono) (rule count_greater_le)
    from p have "trials cfg R rng ks st =
           Inr \<lparr>portfolio_losses = portfolio_losses st @ map (\<lambda>k. (\<Sum>s\<leftarrow>claim_sizes cfg (rng k). max 0 (s - R))) ks,
                reinsurer_hits = reinsurer_hits st + (\<Sum>k\<leftarrow>ks. count_greater (claim_sizes cfg (rng k)) R),
                total_claims = total_claims st + (\<Sum>k\<leftarrow>ks. length (claim_sizes cfg (rng k)))\<rparr>"
      by (simp add: trials_ok)
    with assms(1) have
      "reinsurer_hits st' = reinsurer_hits st + (\<Sum>k\<leftarrow>ks. count_greater (claim_sizes cfg (rng k)) R)"
      "total_claims st' = total_claims st + (\<Sum>k\<leftarrow>ks. length (claim_sizes cfg (rng k)))"
      by auto
    with le assms(2) show ?thesis by linarith
  qed
qed

lemma count_ratio_unit:
  assumes "hits \<le> claims" and "0 < claims"
  shows "\<exists>p. count_ratio hits claims = Inr p \<and> 0 \<le> p \<and> p \<le> 1"
proof -
  from assms have "real hits / real claims \<le> 1" by simp
  moreover have "0 \<le> real hits / real claims" by simp
  ultimately show ?thesis using assms(2) by (simp add: count_ratio_def)
qed

text \<open>
  C10: in a run that completes, the state after each number \<open>k\<close> of trials has
  at most as many reinsurer-triggering claims as claims observed; so when claims were
  observed, the trigger probability is defined and lies in [0, 1].
\<close>

theorem hits_le_total:
  assumes "simulate cfg R rng = Inr final" and "k \<le> N_SIM cfg"
  shows "\<exists>st. trials cfg R rng [0..<k] init_state = Inr st
            \<and> trials cfg R rng [k..<N_SIM cfg] st = Inr final
            \<and> reinsurer_hits st \<le> total_claims st
            \<and> (0 < total_claims st \<longrightarrow>
                 (\<exists>p. count_ratio (reinsurer_hits st) (total_claims st) = Inr p \<and> 0 \<le> p \<and> p \<le> 1))"
proof -
  from assms(2) have "[0..<N_SIM cfg] = [0..<k] @ [k..<N_SIM cfg]"
    by (metis le_add_diff_inverse upt_add_eq_append zero_le)
  with assms(1) have
    "(case trials cfg R rng [0..<k] init_state of
        Inl e \<Rightarrow> Inl e | Inr st' \<Rightarrow> trials cfg R rng [k..<N_SIM cfg] st') = Inr final"
    by (simp add: simulate_def trials_append)
  then obtain st where st: "trials cfg R rng [0..<k] init_state = Inr st"
      and rest: "trials cfg R rng [k..<N_SIM cfg] st = Inr final"
    by (auto split: sum.splits)
  have "reinsurer_hits init_state \<le> total_claims init_state"
    by (simp add: init_state_def)
  with st have inv: "reinsurer_hits st \<le> total_claims st"
    by (rule trials_hits_le_total)
  have unit: "0 < total_claims st \<longrightarrow>
      (\<exists>p. count_ratio (reinsurer_hits st) (total_claims st) = Inr p \<and> 0 \<le> p \<and> p \<le> 1)"
    using inv by (auto intro: count_ratio_unit)
  show ?thesis
    by (rule exI [of _ st]) (intro conjI st rest inv unit)
qed

theorem hits_le_total_witness:
  "simulate example_cfg 1 example_rng =
     Inr \<lparr>portfolio_losses = [0, 2], reinsurer_hits = 1, total_claims = 1\<rparr>
   \<and> 2 \<le> N_SIM example_cfg
   \<and> (\<exists>st p. trials example_cfg 1 example_rng [0..<2] init_state = Inr st
          \<and> reinsurer_hits st \<le> total_claims st
          \<and> 0 < total_claims st
          \<and> count_ratio (reinsurer_hits st) (total_claims st) = Inr p \<and> 0 \<le> p \<and> p \<le> 1)"
proof -
  have s: "simulate example_cfg 1 example_rng =
     Inr \<lparr>portfolio_losses = [0, 2], reinsurer_hits = 1, total_claims = 1\<rparr>"
    by (simp add: example_simulate)
  have k: "2 \<le> N_SIM example_cfg" by (simp add: example_cfg_def)
  have n: "N_SIM example_cfg = 2" by (simp add: example_cfg_def)
  from hits_le_total [OF s k] obtain st
    where h: "trials example_cfg 1 example_rng [0..<2] init_state = Inr st
            \<and> trials example_cfg 1 example_rng [2..<N_SIM example_cfg] st =
                Inr \<lparr>portfolio_losses = [0, 2], reinsurer_hits = 1, total_claims = 1\<rparr>
            \<and> reinsurer_hits st \<le> total_claims st
            \<and> (0 < total_claims st \<longrightarrow>
                 (\<exists>p. count_ratio (reinsurer_hits st) (total_claims st) = Inr p \<and> 0 \<le> p \<and> p \<le> 1))" ..
  note a = h [THEN conjunct1]
    and b = h [THEN conjunct2, THEN conjunct2, THEN conjunct1]
    and c = h [THEN conjunct2, THEN conjunct2, THEN conjunct2]
  from a s have "st = \<lparr>portfolio_losses = [0, 2], reinsurer_hits = 1, total_claims = 1\<rparr>"
    by (simp add: simulate_def n)
  then have t: "0 < total_claims st" by simp
  with c obtain p where p: "count_ratio (reinsurer_hits st) (total_claims st) = Inr p"
      "0 \<le> p" "p \<le> 1"
    by auto
  have "\<exists>st p. trials example_cfg 1 example_rng [0..<2] init_state = Inr st
          \<and> reinsurer_hits st \<le> total_claims st
          \<and> 0 < total_claims st
          \<and> count_ratio (reinsurer_hits st) (total_claims st) = Inr p \<and> 0 \<le> p \<and> p \<le> 1"
    by (rule exI [of _ st], rule exI [of _ p]) (intro conjI a b t p)
  with s k show ?thesis by simp
qed


section \<open>The metrics\<close>

lemma np_mean_Fin:
  assumes "a \<noteq> []"
  shows "np_mean a = Fin (sum_list a / real (length a))"
  using assms by (simp add: np_mean_def)

lemma np_std_Fin:
  assumes "a \<noteq> []"
  shows "np_std a =
    Fin (sqrt ((\<Sum>x\<leftarrow>a. (x - sum_list a / real (length a)) ^ 2) / real (length a)))"
  using assms by (simp add: np_std_def Let_def)

lemma risk_metrics_fields:
  assumes "risk_metrics cfg R st = Inr m"
  shows "mean_loss m = np_mean (portfolio_losses st)"
    and "std_loss m = np_std (portfolio_losses st)"
    and "np_percentile (portfolio_losses st) 99 = Inr (var_99 m)"
    and "tvar_99 m = np_mean (select_ge (portfolio_losses st) (var_99 m))"
    and "count_ratio (reinsurer_hits st) (total_claims st) = Inr (prob_reinsurer m)"
    and "\<exists>premium. PREMIUMS cfg R = Some premium
           \<and> value_for_money m = np_true_divide (np_mean (portfolio_losses st)) premium"
  using assms
  by (auto simp: risk_metrics_def Let_def premium_lookup_def split: sum.splits option.splits)

lemma percentile_99_bounds:
  assumes "a \<noteq> []"
  shows "\<exists>v i j. np_percentile a 99 = Inr v \<and> i < length a \<and> j < length a
            \<and> sort a ! i \<le> v \<and> v \<le> sort a ! j"
proof -
  define s where "s = sort a"
  define n where "n = length s"
  define h where "h = (real n - 1) * (99 / 100)"
  define i where "i = nat \<lfloor>h\<rfloor>"
  define j where "j = min (i + 1) (n - 1)"
  define v where "v = s ! i + (h - real i) * (s ! j - s ! i)"
  have n_len: "n = length a" by (simp add: n_def s_def)
  with assms have n_pos: "0 < n" by simp
  then have n1: "1 \<le> real n" by simp
  have h0: "0 \<le> h" using n1 by (simp add: h_def)
  have hn: "h \<le> real n - 1" using n1 by (simp add: h_def)
  have fl0: "0 \<le> \<lfloor>h\<rfloor>" using h0 by simp
  have ri: "real i = of_int \<lfloor>h\<rfloor>" using fl0 by (simp add: i_def)
  have g0: "0 \<le> h - real i" using ri by simp
  have g1: "h - real i \<le> 1" using ri by linarith
  have "real i \<le> real n - 1" using ri hn by linarith
  then have "real i \<le> real (n - 1)" using n_pos by simp
  then have i_le: "i \<le> n - 1" by simp
  then have i_lt: "i < n" using n_pos by linarith
  have j_lt: "j < n" using n_pos by (simp add: j_def)
  have ij: "i \<le> j" using i_le by (simp add: j_def)
  have srt: "sorted s" by (simp add: s_def)
  have mono: "s ! i \<le> s ! j"
    using srt ij j_lt by (simp add: n_def sorted_nth_mono)
  have lo: "s ! i \<le> v"
    using g0 mono by (simp add: v_def)
  have "(h - real i) * (s ! j - s ! i) \<le> 1 * (s ! j - s ! i)"
    using g1 mono by (intro mult_right_mono) simp_all
  then have hi: "v \<le> s ! j" by (simp add: v_def)
  have "np_percentile a 99 = Inr v"
    using assms by (simp add: np_percentile_def Let_def v_def j_def i_def h_def n_def s_def)
  with i_lt j_lt lo hi show ?thesis
    unfolding n_len s_def by blast
qed

lemma percentile_of_nonempty:
  assumes "a \<noteq> []"
  shows "\<exists>v. np_percentile a 99 = Inr v"
  using percentile_99_bounds [OF assms] by blast





text \<open>
  C5 as stated fails on the code: on the example run the losses are 0 and 2, the
  engine's risk metric is 1, and the sample standard deviation (denominator
  \<open>N_SIM - 1\<close>) is sqrt 2.
\<close>

theorem std_loss_counterexample:
  "simulate example_cfg 1 example_rng =
     Inr \<lparr>portfolio_losses = [0, 2], reinsurer_hits = 1, total_claims = 1\<rparr>
   \<and> run_retention example_cfg 1 example_rng =
     Inr \<lparr>mean_loss = Fin 1, std_loss = Fin 1, var_99 = 99 / 50, tvar_99 = Fin 2,
          prob_reinsurer = 1, value_for_money = Fin (1 / 4)\<rparr>
   \<and> spec_sample_std [0, 2] = sqrt 2
   \<and> sqrt 2 \<noteq> (1::real)"
  by (simp add: example_simulate example_run spec_sample_std_def Let_def)

text \<open>
  C5, amended: the risk metric is the population standard deviation of the loss
  distribution, the square root of the mean squared deviation with denominator
  \<open>N_SIM\<close> (numpy's default \<^verbatim>\<open>ddof=0\<close>).
\<close>

theorem std_loss_population:
  assumes "simulate cfg R rng = Inr st" and "risk_metrics cfg R st = Inr m"
  shows "std_loss m =
           Fin (sqrt ((\<Sum>x\<leftarrow>portfolio_losses st.
                         (x - sum_list (portfolio_losses st) / real (N_SIM cfg)) ^ 2)
                      / real (N_SIM cfg)))"
proof -
  have len: "length (portfolio_losses st) = N_SIM cfg"
    using assms(1) by (rule simulate_length)
  have "np_percentile (portfolio_losses st) 99 = Inr (var_99 m)"
    using assms(2) by (rule risk_metrics_fields(3))
  then have ne: "portfolio_losses st \<noteq> []"
    by (auto simp: np_percentile_def)
  have "std_loss m = np_std (portfolio_losses st)"
    using assms(2) by (rule risk_metrics_fields(2))
  then show ?thesis
    using np_std_Fin [OF ne] len by simp
qed

theorem std_loss_population_witness:
  "simulate example_cfg 1 example_rng =
     Inr \<lparr>portfolio_losses = [0, 2], reinsurer_hits = 1, total_claims = 1\<rparr>
   \<and> risk_metrics example_cfg 1 \<lparr>portfolio_losses = [0, 2], reinsurer_hits = 1, total_claims = 1\<rparr> =
     Inr \<lparr>mean_loss = Fin 1, std_loss = Fin 1, var_99 = 99 / 50, tvar_99 = Fin 2,
          prob_reinsurer = 1, value_for_money = Fin (1 / 4)\<rparr>
   \<and> Fin 1 = Fin (sqrt ((\<Sum>x\<leftarrow>[0, 2]. (x - sum_list [0, 2] / real (N_SIM example_cfg)) ^ 2)
                      / real (N_SIM example_cfg)))"
proof -
  have s: "simulate example_cfg 1 example_rng =
     Inr \<lparr>portfolio_losses = [0, 2], reinsurer_hits = 1, total_claims = 1\<rparr>"
    by (simp add: example_simulate)
  have r: "risk_metrics example_cfg 1 \<lparr>portfolio_losses = [0, 2], reinsurer_hits = 1, total_claims = 1\<rparr> =
     Inr \<lparr>mean_loss = Fin 1, std_loss = Fin 1, var_99 = 99 / 50, tvar_99 = Fin 2,
          prob_reinsurer = 1, value_for_money = Fin (1 / 4)\<rparr>"
    using example_run by (simp add: run_retention_def s)
  from std_loss_population [OF s r] s r show ?thesis by simp
qed


section \<open>Failures of the metrics\<close>

lemma risk_metrics_zero_claims:
  assumes "total_claims st = 0" and "portfolio_losses st \<noteq> []"
  shows "risk_metrics cfg R st = Inl ZeroDivisionError"
proof -
  from percentile_of_nonempty [OF assms(2)] obtain v
    where "np_percentile (portfolio_losses st) 99 = Inr v" by blast
  then show ?thesis
    using assms(1) by (simp add: risk_metrics_def Let_def count_ratio_def)
qed

lemma risk_metrics_missing_premium:
  assumes "PREMIUMS cfg R = None" and "0 < total_claims st" and "portfolio_losses st \<noteq> []"
  shows "risk_metrics cfg R st = Inl KeyError"
proof -
  from percentile_of_nonempty [OF assms(3)] obtain v
    where "np_percentile (portfolio_losses st) 99 = Inr v" by blast
  then show ?thesis
    using assms(1,2) by (simp add: risk_metrics_def Let_def count_ratio_def premium_lookup_def)
qed

text \<open>
  C6: when no claim was observed in any trial of a retention level, the division for
  P(Reinsurer Pays) raises \<^verbatim>\<open>ZeroDivisionError\<close>, Python's error for an undefined
  division; the retention level yields no metrics at all, neither a \<^verbatim>\<open>nan\<close> nor a
  zero.
\<close>

theorem zero_claims_division_error:
  assumes "simulate cfg R rng = Inr st" and "total_claims st = 0"
  shows "count_ratio (reinsurer_hits st) (total_claims st) = Inl ZeroDivisionError
       \<and> (\<forall>m. run_retention cfg R rng \<noteq> Inr m)
       \<and> (0 < N_SIM cfg \<longrightarrow> run_retention cfg R rng = Inl ZeroDivisionError)"
proof -
  have a: "count_ratio (reinsurer_hits st) (total_claims st) = Inl ZeroDivisionError"
    using assms(2) by (simp add: count_ratio_def)
  have b: "\<forall>m. run_retention cfg R rng \<noteq> Inr m"
  proof (intro allI notI)
    fix m assume "run_retention cfg R rng = Inr m"
    then have "risk_metrics cfg R st = Inr m"
      using assms(1) by (simp add: run_retention_def)
    then have "count_ratio (reinsurer_hits st) (total_claims st) = Inr (prob_reinsurer m)"
      by (rule risk_metrics_fields(5))
    with a show False by simp
  qed
  have c: "0 < N_SIM cfg \<longrightarrow> run_retention cfg R rng = Inl ZeroDivisionError"
  proof
    assume "0 < N_SIM cfg"
    with simulate_length [OF assms(1)] have "portfolio_losses st \<noteq> []" by auto
    with assms(2) have "risk_metrics cfg R st = Inl ZeroDivisionError"
      by (rule risk_metrics_zero_claims)
    then show "run_retention cfg R rng = Inl ZeroDivisionError"
      using assms(1) by (simp add: run_retention_def)
  qed
  from a b c show ?thesis by simp
qed

theorem zero_claims_division_error_witness:
  "simulate no_claims_cfg 1 example_rng =
     Inr \<lparr>portfolio_losses = [0, 0], reinsurer_hits = 0, total_claims = 0\<rparr>
   \<and> run_retention no_claims_cfg 1 example_rng = Inl ZeroDivisionError"
proof -
  have s: "simulate no_claims_cfg 1 example_rng =
     Inr \<lparr>portfolio_losses = [0, 0], reinsurer_hits = 0, total_claims = 0\<rparr>"
    by (rule no_claims_simulate)
  have n: "0 < N_SIM no_claims_cfg" by (simp add: no_claims_cfg_def example_cfg_def)
  from zero_claims_division_error [OF s] n s show ?thesis by simp
qed

text \<open>
  C8: for a retention level that is not a key of the premium table, the lookup for
  Value for Money raises \<^verbatim>\<open>KeyError\<close>, Python's error for a missing entry; the
  retention level yields no metrics, so no default value is reported, and whenever the
  run reaches the lookup it ends with that error.
\<close>

theorem missing_premium_key_error:
  assumes "PREMIUMS cfg R = None"
  shows "premium_lookup (PREMIUMS cfg) R = Inl KeyError
       \<and> (\<forall>m. run_retention cfg R rng \<noteq> Inr m)
       \<and> (\<forall>st. simulate cfg R rng = Inr st \<and> 0 < total_claims st
             \<longrightarrow> run_retention cfg R rng = Inl KeyError)"
proof -
  have a: "premium_lookup (PREMIUMS cfg) R = Inl KeyError"
    using assms by (simp add: premium_lookup_def)
  have b: "\<forall>m. run_retention cfg R rng \<noteq> Inr m"
  proof (intro allI notI)
    fix m assume "run_retention cfg R rng = Inr m"
    then obtain st where "risk_metrics cfg R st = Inr m"
      by (auto simp: run_retention_def split: sum.splits)
    from risk_metrics_fields(6) [OF this] assms show False by simp
  qed
  have c: "\<forall>st. simulate cfg R rng = Inr st \<and> 0 < total_claims st
             \<longrightarrow> run_retention cfg R rng = Inl KeyError"
  proof (intro allI impI)
    fix st assume h: "simulate cfg R rng = Inr st \<and> 0 < total_claims st"
    then have s: "simulate cfg R rng = Inr st" and t: "0 < total_claims st" by simp_all
    have "N_SIM cfg \<noteq> 0" using simulate_zero_trials [OF s] t by auto
    with simulate_length [OF s] have "portfolio_losses st \<noteq> []" by auto
    with assms t have "risk_metrics cfg R st = Inl KeyError"
      by (rule risk_metrics_missing_premium)
    then show "run_retention cfg R rng = Inl KeyError"
      using s by (simp add: run_retention_def)
  qed
  from a b c show ?thesis by simp
qed

theorem missing_premium_key_error_witness:
  "PREMIUMS example_cfg 5 = None
   \<and> simulate example_cfg 5 example_rng =
       Inr \<lparr>portfolio_losses = [0, 0], reinsurer_hits = 0, total_claims = 1\<rparr>
   \<and> run_retention example_cfg 5 example_rng = Inl KeyError"
proof -
  have p: "PREMIUMS example_cfg 5 = None" by (rule example_premiums(3))
  have s: "simulate example_cfg 5 example_rng =
       Inr \<lparr>portfolio_losses = [0, 0], reinsurer_hits = 0, total_claims = 1\<rparr>"
    by (simp add: example_simulate)
  from missing_premium_key_error [OF p, of example_rng] p s show ?thesis by simp
qed


section \<open>Monotonicity in the retention level\<close>

lemma ceded_antimono:
  fixes R1 R2 :: real
  assumes "R1 \<le> R2"
  shows "(\<Sum>s\<leftarrow>sizes. max 0 (s - R2)) \<le> (\<Sum>s\<leftarrow>sizes. max 0 (s - R1))"
  by (rule sum_list_mono) (use assms in auto)

lemma count_greater_antimono:
  assumes "R1 \<le> R2"
  shows "count_greater a R2 \<le> count_greater a R1"
proof -
  have "filter (\<lambda>x. R2 < x) a = filter (\<lambda>x. R2 < x) (filter (\<lambda>x. R1 < x) a)"
    using assms by (auto intro: filter_cong)
  then have "length (filter (\<lambda>x. R2 < x) a) \<le> length (filter (\<lambda>x. R1 < x) a)"
    by (metis length_filter_le)
  then show ?thesis by (simp add: count_greater_def)
qed

lemma count_ratio_mono:
  assumes "count_ratio h1 t = Inr p1" and "count_ratio h2 t = Inr p2" and "h2 \<le> h1"
  shows "p2 \<le> p1"
  using assms by (auto simp: count_ratio_def divide_right_mono split: if_splits)

lemma count_ratio_both:
  assumes "h2 \<le> h1"
  shows "if t = 0
         then count_ratio h1 t = Inl ZeroDivisionError \<and> count_ratio h2 t = Inl ZeroDivisionError
         else \<exists>p1 p2. count_ratio h1 t = Inr p1 \<and> count_ratio h2 t = Inr p2 \<and> p2 \<le> p1"
  using assms by (simp add: count_ratio_def divide_right_mono)

text \<open>
  C3: on the same draws, for R1 <= R2, the Expected Ceded Loss at R2 is at most the
  one at R1, the claims observed are the same, and P(Reinsurer Pays) at R2 is at most
  the one at R1 (or the division raises at both, when no claim was observed). The
  run has at least one trial and a claim probability in [0, 1], so that it returns
  and the means are numbers.
\<close>

theorem retention_monotone:
  assumes "R1 \<le> R2" and "0 \<le> CLAIM_PROB cfg" and "CLAIM_PROB cfg \<le> 1" and "0 < N_SIM cfg"
  shows "\<exists>st1 st2 e1 e2.
           simulate cfg R1 rng = Inr st1 \<and> simulate cfg R2 rng = Inr st2
         \<and> np_mean (portfolio_losses st1) = Fin e1
         \<and> np_mean (portfolio_losses st2) = Fin e2 \<and> e2 \<le> e1
         \<and> total_claims st2 = total_claims st1
         \<and> reinsurer_hits st2 \<le> reinsurer_hits st1
         \<and> (if total_claims st1 = 0
             then count_ratio (reinsurer_hits st1) (total_claims st1) = Inl ZeroDivisionError
                \<and> count_ratio (reinsurer_hits st2) (total_claims st2) = Inl ZeroDivisionError
             else \<exists>p1 p2. count_ratio (reinsurer_hits st1) (total_claims st1) = Inr p1
                \<and> count_ratio (reinsurer_hits st2) (total_claims st2) = Inr p2 \<and> p2 \<le> p1)
         \<and> (\<forall>m1 m2. run_retention cfg R1 rng = Inr m1 \<and> run_retention cfg R2 rng = Inr m2
               \<longrightarrow> mean_loss m1 = Fin e1 \<and> mean_loss m2 = Fin e2
                 \<and> prob_reinsurer m2 \<le> prob_reinsurer m1)"
proof -
  let ?ks = "[0..<N_SIM cfg]"
  let ?l1 = "map (\<lambda>k. \<Sum>s\<leftarrow>claim_sizes cfg (rng k). max 0 (s - R1)) ?ks"
  let ?l2 = "map (\<lambda>k. \<Sum>s\<leftarrow>claim_sizes cfg (rng k). max 0 (s - R2)) ?ks"
  let ?h1 = "\<Sum>k\<leftarrow>?ks. count_greater (claim_sizes cfg (rng k)) R1"
  let ?h2 = "\<Sum>k\<leftarrow>?ks. count_greater (claim_sizes cfg (rng k)) R2"
  let ?t = "\<Sum>k\<leftarrow>?ks. length (claim_sizes cfg (rng k))"
  let ?st1 = "\<lparr>portfolio_losses = ?l1, reinsurer_hits = ?h1, total_claims = ?t\<rparr>"
  let ?st2 = "\<lparr>portfolio_losses = ?l2, reinsurer_hits = ?h2, total_claims = ?t\<rparr>"
  let ?e1 = "sum_list ?l1 / real (N_SIM cfg)"
  let ?e2 = "sum_list ?l2 / real (N_SIM cfg)"
  have s1: "simulate cfg R1 rng = Inr ?st1" using assms(2,3) by (rule simulate_ok)
  have s2: "simulate cfg R2 rng = Inr ?st2" using assms(2,3) by (rule simulate_ok)
  have ne: "?l1 \<noteq> []" "?l2 \<noteq> []" using assms(4) by simp_all
  have m1: "np_mean (portfolio_losses ?st1) = Fin ?e1"
    using np_mean_Fin [OF ne(1)] by simp
  have m2: "np_mean (portfolio_losses ?st2) = Fin ?e2"
    using np_mean_Fin [OF ne(2)] by simp
  have "sum_list ?l2 \<le> sum_list ?l1"
    by (rule sum_list_mono) (rule ceded_antimono [OF assms(1)])
  then have e: "?e2 \<le> ?e1"
    using assms(4) by (simp add: divide_right_mono)
  have h: "?h2 \<le> ?h1"
    by (rule sum_list_mono) (rule count_greater_antimono [OF assms(1)])
  have ratio: "if total_claims ?st1 = 0
             then count_ratio (reinsurer_hits ?st1) (total_claims ?st1) = Inl ZeroDivisionError
                \<and> count_ratio (reinsurer_hits ?st2) (total_claims ?st2) = Inl ZeroDivisionError
             else \<exists>p1 p2. count_ratio (reinsurer_hits ?st1) (total_claims ?st1) = Inr p1
                \<and> count_ratio (reinsurer_hits ?st2) (total_claims ?st2) = Inr p2 \<and> p2 \<le> p1"
    using count_ratio_both [OF h, of ?t] by (simp only: sim_state.simps)
  have out: "\<forall>m1 m2. run_retention cfg R1 rng = Inr m1 \<and> run_retention cfg R2 rng = Inr m2
               \<longrightarrow> mean_loss m1 = Fin ?e1 \<and> mean_loss m2 = Fin ?e2
                 \<and> prob_reinsurer m2 \<le> prob_reinsurer m1"
  proof (intro allI impI)
    fix m1 m2
    assume "run_retention cfg R1 rng = Inr m1 \<and> run_retention cfg R2 rng = Inr m2"
    then have r1: "risk_metrics cfg R1 ?st1 = Inr m1" and r2: "risk_metrics cfg R2 ?st2 = Inr m2"
      by (simp_all add: run_retention_def s1 s2)
    have p1: "count_ratio ?h1 ?t = Inr (prob_reinsurer m1)"
      using risk_metrics_fields(5) [OF r1] by simp
    have p2: "count_ratio ?h2 ?t = Inr (prob_reinsurer m2)"
      using risk_metrics_fields(5) [OF r2] by simp
    from p1 p2 h have "prob_reinsurer m2 \<le> prob_reinsurer m1"
      by (rule count_ratio_mono)
    moreover have "mean_loss m1 = Fin ?e1"
      using risk_metrics_fields(1) [OF r1] m1 by simp
    moreover have "mean_loss m2 = Fin ?e2"
      using risk_metrics_fields(1) [OF r2] m2 by simp
    ultimately show "mean_loss m1 = Fin ?e1 \<and> mean_loss m2 = Fin ?e2
                 \<and> prob_reinsurer m2 \<le> prob_reinsurer m1" by simp
  qed
  have tt: "total_claims ?st2 = total_claims ?st1" by simp
  have hh: "reinsurer_hits ?st2 \<le> reinsurer_hits ?st1" using h by simp
  show ?thesis
    apply (rule exI [of _ ?st1])
    apply (rule exI [of _ ?st2])
    apply (rule exI [of _ ?e1])
    apply (rule exI [of _ ?e2])
    apply (intro conjI s1 s2 m1 m2 e tt hh ratio out)
    done
qed

theorem retention_monotone_witness:
  "(1::real) \<le> 2 \<and> 0 \<le> CLAIM_PROB example_cfg \<and> CLAIM_PROB example_cfg \<le> 1
   \<and> 0 < N_SIM example_cfg
   \<and> (\<exists>st1 st2 e1 e2.
           simulate example_cfg 1 example_rng = Inr st1 \<and> simulate example_cfg 2 example_rng = Inr st2
         \<and> np_mean (portfolio_losses st1) = Fin e1
         \<and> np_mean (portfolio_losses st2) = Fin e2 \<and> e2 \<le> e1
         \<and> e1 = 1 \<and> e2 = 1 / 2)"
proof -
  have r: "(1::real) \<le> 2" by simp
  have p: "0 \<le> CLAIM_PROB example_cfg" "CLAIM_PROB example_cfg \<le> 1"
    by (simp_all add: example_cfg_def)
  have n: "0 < N_SIM example_cfg" by (simp add: example_cfg_def)
  from retention_monotone [OF r p n, of example_rng] obtain st1 st2 e1 e2
    where s1: "simulate example_cfg 1 example_rng = Inr st1"
      and s2: "simulate example_cfg 2 example_rng = Inr st2"
      and m1: "np_mean (portfolio_losses st1) = Fin e1"
      and m2: "np_mean (portfolio_losses st2) = Fin e2" and e: "e2 \<le> e1"
    by blast
  from s1 m1 have "e1 = 1" by (auto simp: example_simulate np_mean_def)
  moreover from s2 m2 have "e2 = 1 / 2" by (auto simp: example_simulate np_mean_def)
  ultimately show ?thesis using r p n s1 s2 m1 m2 e by blast
qed


section \<open>A claim probability of zero\<close>

lemma zero_prob_no_claims:
  assumes "CLAIM_PROB cfg = 0" and "\<forall>i<N_POLICIES cfg. 0 \<le> variates d i"
  shows "claim_sizes cfg d = []"
proof -
  let ?claims = "map (\<lambda>i. if variates d i < 0 then 1 else 0 :: nat) [0..<N_POLICIES cfg]"
  have "?claims = map (\<lambda>i. 0) [0..<N_POLICIES cfg]"
    using assms(2) by (intro map_cong) auto
  then have z: "sum_list ?claims = 0"
    by (simp only: sum_list_0)
  have b: "binomial1 (CLAIM_PROB cfg) (N_POLICIES cfg) (variates d) = Inr ?claims"
    by (simp add: assms(1) binomial1_def)
  have "n_claims_of cfg d = sum_list ?claims"
    by (simp only: n_claims_of_def b sum.case)
  with z have "n_claims_of cfg d = 0" by (simp only:)
  then show ?thesis by (simp add: claim_sizes_def lognormal_def)
qed

lemma percentile_zeros:
  assumes "0 < n"
  shows "np_percentile (replicate n 0) 99 = Inr 0"
proof -
  have ne: "replicate n (0::real) \<noteq> []" using assms by simp
  have srt: "sort (replicate n (0::real)) = replicate n 0"
    by (simp add: sorted_sort_id)
  from percentile_99_bounds [OF ne] obtain v i j
    where v: "np_percentile (replicate n 0) 99 = Inr v"
      and i: "i < n" and j: "j < n"
      and lo: "sort (replicate n (0::real)) ! i \<le> v"
      and hi: "v \<le> sort (replicate n (0::real)) ! j"
    by auto
  from lo i have "0 \<le> v" by (simp add: srt)
  moreover from hi j have "v \<le> 0" by (simp add: srt)
  ultimately have "v = 0" by simp
  with v show ?thesis by simp
qed

lemma mean_zeros:
  assumes "0 < n"
  shows "np_mean (replicate n 0) = Fin 0"
  using assms by (simp add: np_mean_def sum_list_replicate)

lemma select_ge_zeros: "select_ge (replicate n 0) 0 = replicate n 0"
  by (simp add: select_ge_def)

text \<open>
  C9: with \<^verbatim>\<open>CLAIM_PROB = 0\<close> every trial's ceded loss is 0, and the Expected
  Ceded Loss, the VaR 99% and the TVaR 99% computed from the losses are 0, at every
  retention level. The uniform variates are in [0, 1), so none is below 0; and there
  is at least one trial, as the metrics of an empty array are not numbers.
\<close>

theorem zero_claim_prob:
  assumes "CLAIM_PROB cfg = 0"
    and "\<forall>k<N_SIM cfg. \<forall>i<N_POLICIES cfg. 0 \<le> variates (rng k) i"
    and "0 < N_SIM cfg"
  shows "\<exists>st. simulate cfg R rng = Inr st
            \<and> portfolio_losses st = replicate (N_SIM cfg) 0
            \<and> np_mean (portfolio_losses st) = Fin 0
            \<and> np_percentile (portfolio_losses st) 99 = Inr 0
            \<and> np_mean (select_ge (portfolio_losses st) 0) = Fin 0"
proof -
  let ?st = "\<lparr>portfolio_losses = map (\<lambda>k. \<Sum>s\<leftarrow>claim_sizes cfg (rng k). max 0 (s - R)) [0..<N_SIM cfg],
                reinsurer_hits = (\<Sum>k\<leftarrow>[0..<N_SIM cfg]. count_greater (claim_sizes cfg (rng k)) R),
                total_claims = (\<Sum>k\<leftarrow>[0..<N_SIM cfg]. length (claim_sizes cfg (rng k)))\<rparr>"
  have p: "0 \<le> CLAIM_PROB cfg" "CLAIM_PROB cfg \<le> 1" using assms(1) by simp_all
  have s: "simulate cfg R rng = Inr ?st" using p by (rule simulate_ok)
  have "map (\<lambda>k. \<Sum>s\<leftarrow>claim_sizes cfg (rng k). max 0 (s - R)) [0..<N_SIM cfg]
          = map (\<lambda>k. 0) [0..<N_SIM cfg]"
  proof (rule map_cong)
    fix k assume "k \<in> set [0..<N_SIM cfg]"
    then have "k < N_SIM cfg" by simp
    with assms(2) have "\<forall>i<N_POLICIES cfg. 0 \<le> variates (rng k) i" by simp
    with assms(1) have "claim_sizes cfg (rng k) = []" by (rule zero_prob_no_claims)
    then show "(\<Sum>s\<leftarrow>claim_sizes cfg (rng k). max 0 (s - R)) = 0" by simp
  qed simp
  then have l: "portfolio_losses ?st = replicate (N_SIM cfg) 0"
    by (simp add: map_replicate_const)
  have m: "np_mean (portfolio_losses ?st) = Fin 0"
    unfolding l using assms(3) by (rule mean_zeros)
  have v: "np_percentile (portfolio_losses ?st) 99 = Inr 0"
    unfolding l using assms(3) by (rule percentile_zeros)
  have t: "np_mean (select_ge (portfolio_losses ?st) 0) = Fin 0"
    unfolding l select_ge_zeros using assms(3) by (rule mean_zeros)
  show ?thesis
    by (rule exI [of _ ?st]) (intro conjI s l m v t)
qed

theorem zero_claim_prob_witness:
  "CLAIM_PROB no_claims_cfg = 0
   \<and> 0 < N_SIM no_claims_cfg
   \<and> (\<exists>st. simulate no_claims_cfg 1 example_rng = Inr st
          \<and> portfolio_losses st = [0, 0]
          \<and> np_mean (portfolio_losses st) = Fin 0
          \<and> np_percentile (portfolio_losses st) 99 = Inr 0
          \<and> np_mean (select_ge (portfolio_losses st) 0) = Fin 0)"
proof -
  have a: "CLAIM_PROB no_claims_cfg = 0"
    by (simp add: no_claims_cfg_def)
  have b: "\<forall>k<N_SIM no_claims_cfg. \<forall>i<N_POLICIES no_claims_cfg. 0 \<le> variates (example_rng k) i"
    by (simp add: example_rng_def)
  have c: "0 < N_SIM no_claims_cfg"
    by (simp add: no_claims_cfg_def example_cfg_def)
  have r: "replicate (N_SIM no_claims_cfg) (0::real) = [0, 0]"
    by (simp add: no_claims_cfg_def example_cfg_def numeral_2_eq_2)
  from zero_claim_prob [OF a b c, of 1] a c show ?thesis
    by (simp only: r)
qed

end
